theory Spec2Isabelle
  imports Main
begin

section \<open>Python values, dictionaries and exceptions\<close>

text \<open>
  The module \<^verbatim>\<open>qiskit/providers/ibmq/ibmqbackend.py\<close> moves JSON-like values between its
  caller and the remote API client. A dictionary is an association list in insertion
  order, as Python keeps it; \<open>map_of\<close> is the lookup. Floating point values do not occur in
  the code paths below and are left out.
\<close>

datatype pyval =
    PNone
  | PBool bool
  | PInt int
  | PStr string
  | PList "pyval list"
  | PDict "(string \<times> pyval) list"

type_synonym dict = "(string \<times> pyval) list"

text \<open>
  Every \<^verbatim>\<open>raise\<close> of the module, and every exception that one of its unguarded
  operations can raise, is a value. \<open>ApiError\<close> and \<open>ValidationError\<close> carry the text that
  \<^verbatim>\<open>str(ex)\<close> gives; \<open>KeyError\<close> carries the missing key.
\<close>

datatype error =
    KeyError string
  | TypeError
  | LookupError string
  | IBMQBackendError string
  | IBMQBackendValueError string
  | ApiError string
  | ValidationError string
  | OtherException string

text \<open>\<^verbatim>\<open>d.get(k)\<close> and \<^verbatim>\<open>d.get(k, None)\<close>.\<close>

definition dict_get :: "dict \<Rightarrow> string \<Rightarrow> pyval" where
  "dict_get d k = (case map_of d k of None \<Rightarrow> PNone | Some v \<Rightarrow> v)"

text \<open>\<^verbatim>\<open>k in d\<close>.\<close>

definition dict_contains :: "string \<Rightarrow> dict \<Rightarrow> bool" where
  "dict_contains k d = (case map_of d k of None \<Rightarrow> False | Some v \<Rightarrow> True)"

text \<open>\<^verbatim>\<open>d[k]\<close> on a dictionary raises \<^verbatim>\<open>KeyError\<close> for a missing key.\<close>

definition dict_getitem :: "dict \<Rightarrow> string \<Rightarrow> error + pyval" where
  "dict_getitem d k = (case map_of d k of None \<Rightarrow> Inl (KeyError k) | Some v \<Rightarrow> Inr v)"

text \<open>
  \<^verbatim>\<open>v[k]\<close> with a string key on any value: only a dictionary can be indexed by a string;
  \<^verbatim>\<open>None\<close>, numbers, strings and lists raise \<^verbatim>\<open>TypeError\<close>.
\<close>

definition py_getitem :: "pyval \<Rightarrow> string \<Rightarrow> error + pyval" where
  "py_getitem v k = (case v of PDict d \<Rightarrow> dict_getitem d k | _ \<Rightarrow> Inl TypeError)"

text \<open>\<^verbatim>\<open>d[k] = v\<close>: an existing key keeps its position, a new key goes last.\<close>

fun dict_setitem :: "dict \<Rightarrow> string \<Rightarrow> pyval \<Rightarrow> dict" where
  "dict_setitem [] k v = [(k, v)]"
| "dict_setitem ((k', v') # d) k v =
     (if k' = k then (k', v) # d else (k', v') # dict_setitem d k v)"

text \<open>\<^verbatim>\<open>d.update(other)\<close>, returning the updated dictionary.\<close>

definition dict_update :: "dict \<Rightarrow> dict \<Rightarrow> dict" where
  "dict_update d other = fold (\<lambda>(k, v) acc. dict_setitem acc k v) other d"

text \<open>The dictionary display \<^verbatim>\<open>{**a, **b}\<close>: a fresh dictionary receives \<open>a\<close>, then \<open>b\<close>.\<close>

definition dict_unpack2 :: "dict \<Rightarrow> dict \<Rightarrow> dict" where
  "dict_unpack2 a b = dict_update (dict_update [] a) b"

text \<open>
  \<^verbatim>\<open>str(v)\<close>, as \<^verbatim>\<open>'{}'.format(v)\<close> applies it: a string is left as it is, every other
  value is rendered by the interpreter's \<^verbatim>\<open>repr\<close>, which is a parameter here.
\<close>

definition py_str :: "(pyval \<Rightarrow> string) \<Rightarrow> pyval \<Rightarrow> string" where
  "py_str py_repr v = (case v of PStr s \<Rightarrow> s | _ \<Rightarrow> py_repr v)"

text \<open>\<^verbatim>\<open>sep.join(items)\<close> raises \<^verbatim>\<open>TypeError\<close> unless every item is a string.\<close>

fun join_strings :: "string \<Rightarrow> string list \<Rightarrow> string" where
  "join_strings sep [] = []"
| "join_strings sep [x] = x"
| "join_strings sep (x # y # ys) = x @ sep @ join_strings sep (y # ys)"

fun str_items :: "pyval list \<Rightarrow> string list option" where
  "str_items [] = Some []"
| "str_items (v # vs) =
     (case v of
        PStr s \<Rightarrow> (case str_items vs of None \<Rightarrow> None | Some ss \<Rightarrow> Some (s # ss))
      | _ \<Rightarrow> None)"

definition py_join :: "string \<Rightarrow> pyval list \<Rightarrow> error + string" where
  "py_join sep items =
     (case str_items items of None \<Rightarrow> Inl TypeError | Some ss \<Rightarrow> Inr (join_strings sep ss))"

section \<open>Collaborators of the module\<close>

text \<open>
  Modelled from the spec: the enumeration \<^verbatim>\<open>JobStatus\<close> is imported from
  \<^verbatim>\<open>qiskit.providers\<close> and is not part of this module. The spec names the members
  RUNNING, QUEUED, CANCELLED, DONE and ERROR; the \<^verbatim>\<open>else\<close> branch of \<^verbatim>\<open>jobs\<close> provides for
  further members, which are \<open>OTHER\<close> with the member's name. Every member is truthy.
\<close>

datatype JobStatus = RUNNING | QUEUED | CANCELLED | DONE | ERROR | OTHER string

text \<open>
  \<^verbatim>\<open>JobStatus[s]\<close>, the lookup of a member by name, raises \<^verbatim>\<open>KeyError\<close> for a string
  that names no member. The names of the further members are the parameter \<open>others\<close>.
\<close>

definition JobStatus_getitem :: "string list \<Rightarrow> string \<Rightarrow> error + JobStatus" where
  "JobStatus_getitem others s =
     (if s = ''RUNNING'' then Inr RUNNING
      else if s = ''QUEUED'' then Inr QUEUED
      else if s = ''CANCELLED'' then Inr CANCELLED
      else if s = ''DONE'' then Inr DONE
      else if s = ''ERROR'' then Inr ERROR
      else if s \<in> set others then Inr (OTHER s)
      else Inl (KeyError s))"

text \<open>The \<^verbatim>\<open>status\<close> argument of \<^verbatim>\<open>jobs\<close>: \<^verbatim>\<open>None\<close>, a string or a member of the enumeration.\<close>

datatype status_arg = StatusNone | StatusStr string | StatusEnum JobStatus

text \<open>
  The injected API client. Each operation answers with a value or raises. The calls that
  this module makes on it are recorded in the world, in order.
\<close>

record api_client =
  backend_properties :: "string \<Rightarrow> error + pyval"
  backend_status :: "string \<Rightarrow> error + pyval"
  get_status_jobs :: "int \<Rightarrow> int \<Rightarrow> dict \<Rightarrow> error + dict list"
  get_job :: "string \<Rightarrow> error + dict"

datatype api_call =
    Call_backend_properties string
  | Call_backend_status string
  | Call_get_status_jobs int int dict
  | Call_get_job string

datatype warning_category = UserWarning | DeprecationWarning

record world =
  api_calls :: "api_call list"
  warnings :: "(warning_category \<times> string) list"

definition api_call :: "api_call \<Rightarrow> world \<Rightarrow> world" where
  "api_call c w = w\<lparr>api_calls := api_calls w @ [c]\<rparr>"

text \<open>
  \<^verbatim>\<open>warnings.warn(message, category)\<close>; the category defaults to \<^verbatim>\<open>UserWarning\<close>. The
  warning is recorded and execution goes on, as under Python's default warning filters.
\<close>

definition warnings_warn :: "string \<Rightarrow> warning_category \<Rightarrow> world \<Rightarrow> world" where
  "warnings_warn message category w = w\<lparr>warnings := warnings w @ [(category, message)]\<rparr>"

section \<open>The backend\<close>

text \<open>
  \<^verbatim>\<open>IBMQBackend\<close>: \<open>name\<close> is \<^verbatim>\<open>self.name()\<close>, \<open>simulator\<close> is
  \<^verbatim>\<open>self.configuration().simulator\<close>, \<open>api\<close> is \<^verbatim>\<open>self._api\<close>.
\<close>

record IBMQBackend =
  name :: string
  simulator :: bool
  api :: api_client

text \<open>
  Modelled from the spec: the class \<^verbatim>\<open>IBMQJob\<close> lives in \<^verbatim>\<open>ibmqjob.py\<close>, which is not among
  the sources. A job handle is the data its constructor receives here: the backend, the
  job id (\<open>job_ident\<close>), the creation date and the API status. What the job object does
  with them afterwards is its own.
\<close>

record IBMQJob =
  job_backend :: IBMQBackend
  job_ident :: pyval
  job_creation_date :: pyval
  job_api_status :: pyval

definition new_IBMQJob :: "IBMQBackend \<Rightarrow> dict \<Rightarrow> IBMQJob" where
  "new_IBMQJob self job_info =
     \<lparr>job_backend = self,
      job_ident = dict_get job_info ''id'',
      job_creation_date = dict_get job_info ''creationDate'',
      job_api_status = dict_get job_info ''status''\<rparr>"

subsection \<open>properties\<close>

text \<open>
  \<^verbatim>\<open>BackendProperties.from_dict\<close> belongs to \<^verbatim>\<open>qiskit.providers.models\<close> and is the parameter
  \<open>from_dict\<close>.
\<close>

definition properties ::
  "(pyval \<Rightarrow> error + 'p) \<Rightarrow> IBMQBackend \<Rightarrow> world \<Rightarrow> (error + 'p option) \<times> world" where
  "properties from_dict self w =
     (if simulator self then (Inr None, w)
      else
        let w1 = api_call (Call_backend_properties (name self)) w in
        case backend_properties (api self) (name self) of
          Inl e \<Rightarrow> (Inl e, w1)
        | Inr api_properties \<Rightarrow>
            (case from_dict api_properties of
               Inl e \<Rightarrow> (Inl e, w1)
             | Inr p \<Rightarrow> (Inr (Some p), w1)))"

subsection \<open>jobs\<close>

text \<open>The \<^verbatim>\<open>if\<close>/\<^verbatim>\<open>elif\<close> chain that maps a status to its predicates.\<close>

definition status_filter :: "JobStatus \<Rightarrow> error + dict" where
  \<open>status_filter status =
     (if status = RUNNING then
        Inr [(''status'', PStr ''RUNNING''), (''infoQueue'', PDict [(''exists'', PBool False)])]
      else if status = QUEUED then
        Inr [(''status'', PStr ''RUNNING''), (''infoQueue.status'', PStr ''PENDING_IN_QUEUE'')]
      else if status = CANCELLED then
        Inr [(''status'', PStr ''CANCELLED'')]
      else if status = DONE then
        Inr [(''status'', PStr ''COMPLETED'')]
      else if status = ERROR then
        Inr [(''status'', PDict [(''regexp'', PStr ''^ERROR'')])]
      else
        Inl (IBMQBackendValueError ''unrecognized value for "status" keyword in job filter''))\<close>

text \<open>
  \<^verbatim>\<open>if status:\<close> with the coercion of a string: \<^verbatim>\<open>None\<close> and the empty string are falsy
  and give no status at all.
\<close>

definition coerce_status :: "string list \<Rightarrow> status_arg \<Rightarrow> error + JobStatus option" where
  "coerce_status others status =
     (case status of
        StatusNone \<Rightarrow> Inr None
      | StatusStr s \<Rightarrow>
          (if s = [] then Inr None
           else (case JobStatus_getitem others s of Inl e \<Rightarrow> Inl e | Inr st \<Rightarrow> Inr (Some st)))
      | StatusEnum st \<Rightarrow> Inr (Some st))"

text \<open>Lines 146 to 169: the filter that is handed to the API client.\<close>

definition jobs_filter ::
  "string list \<Rightarrow> IBMQBackend \<Rightarrow> status_arg \<Rightarrow> dict option \<Rightarrow> error + dict" where
  "jobs_filter others self status db_filter =
     (let api_filter = [(''backend.name'', PStr (name self))] in
      case coerce_status others status of
        Inl e \<Rightarrow> Inl e
      | Inr st \<Rightarrow>
          (case (case st of
                   None \<Rightarrow> Inr api_filter
                 | Some s \<Rightarrow>
                     (case status_filter s of
                        Inl e \<Rightarrow> Inl e
                      | Inr this_filter \<Rightarrow> Inr (dict_update api_filter this_filter))) of
             Inl e \<Rightarrow> Inl e
           | Inr api_filter \<Rightarrow>
               (case db_filter of
                  None \<Rightarrow> Inr api_filter
                | Some f \<Rightarrow>
                    if f = [] then Inr api_filter else Inr (dict_unpack2 f api_filter))))"

text \<open>\<^verbatim>\<open>job_info.get('kind', None) != 'q-object'\<close>, negated.\<close>

definition is_qobject :: "dict \<Rightarrow> bool" where
  "is_qobject job_info = (dict_get job_info ''kind'' = PStr ''q-object'')"

text \<open>
  Lines 172 to 182: the loop over the records, with \<^verbatim>\<open>job_list\<close> and \<^verbatim>\<open>old_format_jobs\<close> as
  accumulators; \<^verbatim>\<open>break\<close> returns them as they are.
\<close>

fun jobs_loop ::
  "IBMQBackend \<Rightarrow> dict list \<Rightarrow> IBMQJob list \<Rightarrow> pyval list \<Rightarrow> IBMQJob list \<times> pyval list" where
  "jobs_loop self [] job_list old_format_jobs = (job_list, old_format_jobs)"
| "jobs_loop self (job_info # rest) job_list old_format_jobs =
     (if \<not> is_qobject job_info then
        (job_list, old_format_jobs @ [dict_get job_info ''id''])
      else
        jobs_loop self rest (job_list @ [new_IBMQJob self job_info]) old_format_jobs)"

definition old_jobs_message :: "string \<Rightarrow> string" where
  \<open>old_jobs_message job_ids =
     ''Some jobs are in a no-longer supported format. Please send the job using Qiskit 0.8+. Old jobs:\<newline> - ''
       @ job_ids\<close>

definition jobs ::
  "string list \<Rightarrow> IBMQBackend \<Rightarrow> int \<Rightarrow> int \<Rightarrow> status_arg \<Rightarrow> dict option \<Rightarrow> world
     \<Rightarrow> (error + IBMQJob list) \<times> world" where
  "jobs others self limit skip status db_filter w =
     (case jobs_filter others self status db_filter of
        Inl e \<Rightarrow> (Inl e, w)
      | Inr api_filter \<Rightarrow>
          (let w1 = api_call (Call_get_status_jobs limit skip api_filter) w in
           (case get_status_jobs (api self) limit skip api_filter of
              Inl e \<Rightarrow> (Inl e, w1)
            | Inr job_info_list \<Rightarrow>
                (case jobs_loop self job_info_list [] [] of
                   (job_list, old_format_jobs) \<Rightarrow>
                     (if old_format_jobs \<noteq> [] then
                        (case py_join ''\<newline> - '' old_format_jobs of
                           Inl e \<Rightarrow> (Inl e, w1)
                         | Inr job_ids \<Rightarrow>
                             (Inr job_list,
                              warnings_warn (old_jobs_message job_ids) DeprecationWarning w1))
                      else (Inr job_list, w1))))))"

subsection \<open>retrieve_job\<close>

definition failed_to_get_job :: "string \<Rightarrow> string \<Rightarrow> string" where
  \<open>failed_to_get_job job_id detail = ''Failed to get job "'' @ job_id @ ''": '' @ detail\<close>

definition another_backend_message :: "string \<Rightarrow> string \<Rightarrow> string \<Rightarrow> string" where
  \<open>another_backend_message job_id a b =
     ''Job "'' @ job_id @ ''" belongs to another backend than the one queried. ''
       @ ''The query was made on backend "'' @ a @ ''", ''
       @ ''but the job actually belongs to backend "'' @ b @ ''".''\<close>

definition not_this_backend :: "string \<Rightarrow> string" where
  \<open>not_this_backend a = ''job does not belong to backend "'' @ a @ ''".''\<close>

definition pre_qobj_message :: "string \<Rightarrow> string" where
  \<open>pre_qobj_message job_id =
     ''The result of job '' @ job_id
       @ '' is in a no longer supported format. Please send the job using Qiskit 0.8+.''\<close>

text \<open>
  The body of the \<^verbatim>\<open>try\<close>, after the fetch: the error field, then the backend name, then
  the kind. None of the exceptions it raises is an \<^verbatim>\<open>ApiError\<close>, so none is caught.
\<close>

definition check_job_info ::
  "(pyval \<Rightarrow> string) \<Rightarrow> IBMQBackend \<Rightarrow> string \<Rightarrow> dict \<Rightarrow> world \<Rightarrow> (error + IBMQJob) \<times> world" where
  "check_job_info py_repr self job_id job_info w =
     (if dict_contains ''error'' job_info then
        (Inl (IBMQBackendError
               (failed_to_get_job job_id (py_str py_repr (dict_get job_info ''error'')))), w)
      else
        case dict_getitem job_info ''backend'' of
          Inl e \<Rightarrow> (Inl e, w)
        | Inr backend \<Rightarrow>
            (case py_getitem backend ''name'' of
               Inl e \<Rightarrow> (Inl e, w)
             | Inr backend_name \<Rightarrow>
                 if backend_name \<noteq> PStr (name self) then
                   (Inl (IBMQBackendError
                          (failed_to_get_job job_id (not_this_backend (py_str py_repr backend_name)))),
                    warnings_warn
                      (another_backend_message job_id (py_str py_repr backend_name) (name self))
                      UserWarning w)
                 else if \<not> is_qobject job_info then
                   (Inl (IBMQBackendError (failed_to_get_job job_id ''job in pre-qobj format'')),
                    warnings_warn (pre_qobj_message job_id) DeprecationWarning w)
                 else (Inr (new_IBMQJob self job_info), w)))"

definition retrieve_job ::
  "(pyval \<Rightarrow> string) \<Rightarrow> IBMQBackend \<Rightarrow> string \<Rightarrow> world \<Rightarrow> (error + IBMQJob) \<times> world" where
  "retrieve_job py_repr self job_id w =
     (let w1 = api_call (Call_get_job job_id) w in
      case get_job (api self) job_id of
        Inl ex \<Rightarrow>
          (case ex of
             ApiError m \<Rightarrow> (Inl (IBMQBackendError (failed_to_get_job job_id m)), w1)
           | _ \<Rightarrow> (Inl ex, w1))
      | Inr job_info \<Rightarrow> check_job_info py_repr self job_id job_info w1)"

subsection \<open>status\<close>

text \<open>
  \<^verbatim>\<open>BackendStatus.from_dict\<close> is the parameter \<open>from_dict\<close>; only its \<^verbatim>\<open>ValidationError\<close> is
  caught.
\<close>

definition status ::
  "(pyval \<Rightarrow> error + 's) \<Rightarrow> IBMQBackend \<Rightarrow> world \<Rightarrow> (error + 's) \<times> world" where
  \<open>status from_dict self w =
     (let w1 = api_call (Call_backend_status (name self)) w in
      case backend_status (api self) (name self) of
        Inl e \<Rightarrow> (Inl e, w1)
      | Inr api_status \<Rightarrow>
          (case from_dict api_status of
             Inl ex \<Rightarrow>
               (case ex of
                  ValidationError m \<Rightarrow> (Inl (LookupError (''Couldn't get backend status: '' @ m)), w1)
                | _ \<Rightarrow> (Inl ex, w1))
           | Inr s \<Rightarrow> (Inr s, w1)))\<close>

section \<open>A sample backend\<close>

text \<open>
  A device named \<open>ibmqx4\<close>, a simulator, and an API client with fixed answers: three listed
  jobs, the second of which has no \<open>kind\<close> (the listing drops the first \<open>skip\<close> of them),
  and a handful of single jobs.
\<close>

definition sample_records :: "dict list" where
  "sample_records =
     [[(''id'', PStr ''j1''), (''kind'', PStr ''q-object''),
       (''creationDate'', PStr ''2019-04-01''), (''status'', PStr ''COMPLETED'')],
      [(''id'', PStr ''j2''), (''creationDate'', PStr ''2018-11-30''),
       (''status'', PStr ''COMPLETED'')],
      [(''id'', PStr ''j3''), (''kind'', PStr ''q-object''),
       (''creationDate'', PStr ''2019-04-02''), (''status'', PStr ''RUNNING'')]]"

definition sample_job :: "string \<Rightarrow> error + dict" where
  "sample_job job_id =
     (if job_id = ''with-error'' then
        Inr [(''error'', PStr ''not found''),
             (''backend'', PDict [(''name'', PStr ''ibmqx2'')]),
             (''kind'', PStr ''circuit'')]
      else if job_id = ''foreign'' then
        Inr [(''id'', PStr ''foreign''), (''kind'', PStr ''q-object''),
             (''backend'', PDict [(''name'', PStr ''ibmqx2'')])]
      else if job_id = ''no-backend'' then
        Inr [(''id'', PStr ''no-backend''), (''kind'', PStr ''q-object'')]
      else if job_id = ''no-name'' then
        Inr [(''id'', PStr ''no-name''), (''kind'', PStr ''q-object''),
             (''backend'', PDict [(''id'', PStr ''5ae875670f020500393162b3'')])]
      else if job_id = ''no-kind'' then
        Inr [(''id'', PStr ''no-kind''), (''backend'', PDict [(''name'', PStr ''ibmqx4'')])]
      else Inl (ApiError ''Job not found''))"

definition sample_api :: api_client where
  "sample_api =
     \<lparr>backend_properties = (\<lambda>n. Inr (PDict [(''backend_name'', PStr n)])),
      backend_status = (\<lambda>n. Inr (PDict [(''backend_name'', PStr n), (''pending_jobs'', PInt 3)])),
      get_status_jobs = (\<lambda>limit skip f. Inr (drop (nat skip) sample_records)),
      get_job = sample_job\<rparr>"

definition sample_device :: IBMQBackend where
  "sample_device = \<lparr>name = ''ibmqx4'', simulator = False, api = sample_api\<rparr>"

definition sample_simulator :: IBMQBackend where
  "sample_simulator = \<lparr>name = ''ibmq_qasm_simulator'', simulator = True, api = sample_api\<rparr>"

definition quiet :: world where
  "quiet = \<lparr>api_calls = [], warnings = []\<rparr>"

definition sample_repr :: "pyval \<Rightarrow> string" where
  "sample_repr v = (case v of PNone \<Rightarrow> ''None'' | PBool b \<Rightarrow> (if b then ''True'' else ''False'') | _ \<Rightarrow> ''...'')"

text \<open>Two deserialisers for a status response: one accepts, one rejects.\<close>

definition accepting :: "pyval \<Rightarrow> error + pyval" where
  "accepting raw = Inr raw"

definition rejecting :: "pyval \<Rightarrow> error + pyval" where
  "rejecting raw = Inl (ValidationError ''operational: missing data for required field'')"

section \<open>Dictionaries\<close>

text \<open>Lookup after \<^verbatim>\<open>d[k] = v\<close>, \<^verbatim>\<open>d.update(other)\<close> and \<^verbatim>\<open>{**a, **b}\<close>.\<close>

lemma map_of_dict_setitem: "map_of (dict_setitem d k v) = (map_of d)(k \<mapsto> v)"
  by (induction d k v rule: dict_setitem.induct) (auto simp: fun_eq_iff)

lemma map_of_fold_setitem:
  "map_of (fold (\<lambda>(k, v) acc. dict_setitem acc k v) other d) = map_of d ++ map_of (rev other)"
proof (induction other arbitrary: d)
  case Nil
  then show ?case by simp
next
  case (Cons p other)
  obtain k v where p: "p = (k, v)" by (cases p)
  show ?case
    by (simp add: p Cons.IH map_of_dict_setitem fun_eq_iff map_add_def split: option.splits)
qed

lemma map_of_dict_update: "map_of (dict_update d other) = map_of d ++ map_of (rev other)"
  by (simp add: dict_update_def map_of_fold_setitem)

lemma keys_dict_setitem:
  "map fst (dict_setitem d k v) = (if k \<in> fst ` set d then map fst d else map fst d @ [k])"
  by (induction d k v rule: dict_setitem.induct) auto

lemma distinct_fold_setitem:
  "distinct (map fst d) \<Longrightarrow> distinct (map fst (fold (\<lambda>(k, v) acc. dict_setitem acc k v) other d))"
  by (induction other arbitrary: d) (auto simp: keys_dict_setitem split: prod.splits)

lemma distinct_dict_update:
  "distinct (map fst d) \<Longrightarrow> distinct (map fst (dict_update d other))"
  by (simp add: dict_update_def distinct_fold_setitem)

lemma map_of_rev_distinct: "distinct (map fst d) \<Longrightarrow> map_of (rev d) = map_of d"
  by (metis distinct_rev map_of_inject_set rev_map set_rev)

lemma map_of_dict_unpack2:
  "distinct (map fst b) \<Longrightarrow> map_of (dict_unpack2 a b) = map_of (rev a) ++ map_of b"
  by (simp add: dict_unpack2_def map_of_dict_update map_of_rev_distinct)

section \<open>The call that jobs makes\<close>

text \<open>
  When the filter cannot be built nothing is called; when it is built, it is what
  \<^verbatim>\<open>get_status_jobs\<close> receives, whatever happens afterwards.
\<close>

lemma jobs_filter_fails: "jobs_filter others self st dbf = Inl e \<Longrightarrow>
    jobs others self limit skip st dbf w = (Inl e, w)"
  by (simp add: jobs_def)

lemma jobs_calls_api:
  "jobs_filter others self st dbf = Inr f \<Longrightarrow>
     api_calls (snd (jobs others self limit skip st dbf w))
       = api_calls w @ [Call_get_status_jobs limit skip f]"
  by (simp add: jobs_def api_call_def warnings_warn_def Let_def split: sum.splits prod.splits)

lemma status_filter_keys:
  "status_filter s = Inr this_filter \<Longrightarrow> distinct (map fst this_filter) \<and> ''backend.name'' \<notin> fst ` set this_filter"
  by (auto simp: status_filter_def split: if_splits)

section \<open>The filter of jobs\<close>

text \<open>
  Claim C1. For each of the five statuses, \<^verbatim>\<open>jobs(status=V)\<close> without a \<^verbatim>\<open>db_filter\<close> makes
  one call of \<^verbatim>\<open>get_status_jobs\<close>, with the given limit and skip and with the filter that
  holds the backend's name followed by the predicates of the table: RUNNING gives status
  RUNNING and \<^verbatim>\<open>infoQueue: {exists: False}\<close>, QUEUED gives status RUNNING and
  \<^verbatim>\<open>infoQueue.status: PENDING_IN_QUEUE\<close>, CANCELLED gives status CANCELLED, DONE gives
  status COMPLETED, ERROR gives status \<^verbatim>\<open>{regexp: ^ERROR}\<close>.
\<close>

theorem jobs_status_table:
  "api_calls (snd (jobs others self limit skip (StatusEnum RUNNING) None w)) =
     api_calls w @ [Call_get_status_jobs limit skip
       [(''backend.name'', PStr (name self)), (''status'', PStr ''RUNNING''),
        (''infoQueue'', PDict [(''exists'', PBool False)])]]
   \<and> api_calls (snd (jobs others self limit skip (StatusEnum QUEUED) None w)) =
     api_calls w @ [Call_get_status_jobs limit skip
       [(''backend.name'', PStr (name self)), (''status'', PStr ''RUNNING''),
        (''infoQueue.status'', PStr ''PENDING_IN_QUEUE'')]]
   \<and> api_calls (snd (jobs others self limit skip (StatusEnum CANCELLED) None w)) =
     api_calls w @ [Call_get_status_jobs limit skip
       [(''backend.name'', PStr (name self)), (''status'', PStr ''CANCELLED'')]]
   \<and> api_calls (snd (jobs others self limit skip (StatusEnum DONE) None w)) =
     api_calls w @ [Call_get_status_jobs limit skip
       [(''backend.name'', PStr (name self)), (''status'', PStr ''COMPLETED'')]]
   \<and> api_calls (snd (jobs others self limit skip (StatusEnum ERROR) None w)) =
     api_calls w @ [Call_get_status_jobs limit skip
       [(''backend.name'', PStr (name self)), (''status'', PDict [(''regexp'', PStr ''^ERROR'')])]]"
proof -
  have r: "jobs_filter others self (StatusEnum RUNNING) None =
      Inr [(''backend.name'', PStr (name self)), (''status'', PStr ''RUNNING''),
           (''infoQueue'', PDict [(''exists'', PBool False)])]"
    by (simp add: jobs_filter_def coerce_status_def status_filter_def dict_update_def)
  have q: "jobs_filter others self (StatusEnum QUEUED) None =
      Inr [(''backend.name'', PStr (name self)), (''status'', PStr ''RUNNING''),
           (''infoQueue.status'', PStr ''PENDING_IN_QUEUE'')]"
    by (simp add: jobs_filter_def coerce_status_def status_filter_def dict_update_def)
  have c: "jobs_filter others self (StatusEnum CANCELLED) None =
      Inr [(''backend.name'', PStr (name self)), (''status'', PStr ''CANCELLED'')]"
    by (simp add: jobs_filter_def coerce_status_def status_filter_def dict_update_def)
  have d: "jobs_filter others self (StatusEnum DONE) None =
      Inr [(''backend.name'', PStr (name self)), (''status'', PStr ''COMPLETED'')]"
    by (simp add: jobs_filter_def coerce_status_def status_filter_def dict_update_def)
  have e: "jobs_filter others self (StatusEnum ERROR) None =
      Inr [(''backend.name'', PStr (name self)),
           (''status'', PDict [(''regexp'', PStr ''^ERROR'')])]"
    by (simp add: jobs_filter_def coerce_status_def status_filter_def dict_update_def)
  show ?thesis
    using jobs_calls_api[OF r] jobs_calls_api[OF q] jobs_calls_api[OF c]
      jobs_calls_api[OF d] jobs_calls_api[OF e]
    by blast
qed

text \<open>The name of one of the five statuses gives what the member itself gives.\<close>

lemma jobs_status_name:
  "V \<in> {''RUNNING'', ''QUEUED'', ''CANCELLED'', ''DONE'', ''ERROR''} \<Longrightarrow>
   JobStatus_getitem others V = Inr st \<Longrightarrow>
   jobs others self limit skip (StatusStr V) dbf w = jobs others self limit skip (StatusEnum st) dbf w"
  by (auto simp: jobs_def jobs_filter_def coerce_status_def)

text \<open>
  Claim C3. The docstring of \<^verbatim>\<open>jobs\<close> promises \<^verbatim>\<open>IBMQBackendValueError\<close> for an unrecognized
  status. A string that names no member of the enumeration does not get that far: the
  lookup \<^verbatim>\<open>JobStatus[status]\<close> is unguarded, so with the members INITIALIZING and VALIDATING
  beside the five, \<^verbatim>\<open>jobs(status='FINISHED')\<close> on the sample device ends in
  \<^verbatim>\<open>KeyError('FINISHED')\<close>, before any call of the API client.
\<close>

theorem jobs_unknown_status_name:
  "jobs [''INITIALIZING'', ''VALIDATING''] sample_device 50 0 (StatusStr ''FINISHED'') None quiet
     = (Inl (KeyError ''FINISHED''), quiet)"
  by (simp add: jobs_def jobs_filter_def coerce_status_def JobStatus_getitem_def)

text \<open>
  The same for every non-empty string that the enumeration does not know. The empty
  string is falsy and is treated as no status at all. A member of the enumeration
  outside the five does raise \<^verbatim>\<open>IBMQBackendValueError\<close>.
\<close>

lemma jobs_unknown_name_KeyError:
  "s \<noteq> [] \<Longrightarrow> JobStatus_getitem others s = Inl (KeyError s) \<Longrightarrow>
     jobs others self limit skip (StatusStr s) dbf w = (Inl (KeyError s), w)"
  by (simp add: jobs_def jobs_filter_def coerce_status_def)

lemma jobs_empty_status_name:
  "jobs others self limit skip (StatusStr []) dbf w = jobs others self limit skip StatusNone dbf w"
  by (simp add: jobs_def jobs_filter_def coerce_status_def)

lemma jobs_other_member:
  "jobs others self limit skip (StatusEnum (OTHER n)) dbf w =
     (Inl (IBMQBackendValueError ''unrecognized value for \"status\" keyword in job filter''), w)"
  by (simp add: jobs_def jobs_filter_def coerce_status_def status_filter_def)

section \<open>properties and status\<close>

text \<open>
  Claim C6. On a backend whose configuration says simulator, \<^verbatim>\<open>properties()\<close> returns
  \<^verbatim>\<open>None\<close> and leaves the world as it was: no call of the API client is made.
\<close>

theorem properties_simulator: "simulator self \<Longrightarrow> properties from_dict self w = (Inr None, w)"
  by (simp add: properties_def)

theorem properties_simulator_witness:
  "simulator sample_simulator \<and> properties accepting sample_simulator quiet = (Inr None, quiet)"
  using properties_simulator[of sample_simulator accepting quiet]
  by (simp add: sample_simulator_def)

text \<open>
  Claim C7. When the API client answers with a raw status, \<^verbatim>\<open>status()\<close> fails with
  \<^verbatim>\<open>LookupError\<close> if the deserialisation raises \<^verbatim>\<open>ValidationError\<close>, and the message is
  "Couldn't get backend status: " followed by the text of the validation error; when the
  deserialisation succeeds its result is returned.
\<close>

theorem status_wraps_validation_error:
  assumes "backend_status (api self) (name self) = Inr raw"
  shows "(\<forall>m. from_dict raw = Inl (ValidationError m) \<longrightarrow>
            status from_dict self w =
              (Inl (LookupError (''Couldn't get backend status: '' @ m)),
               api_call (Call_backend_status (name self)) w))
       \<and> (\<forall>s. from_dict raw = Inr s \<longrightarrow>
            status from_dict self w = (Inr s, api_call (Call_backend_status (name self)) w))"
  using assms by (simp add: status_def)


theorem status_wraps_validation_error_witness:
  "status rejecting sample_device quiet =
     (Inl (LookupError
        ''Couldn't get backend status: operational: missing data for required field''),
      \<lparr>api_calls = [Call_backend_status ''ibmqx4''], warnings = []\<rparr>)
   \<and> status accepting sample_device quiet =
     (Inr (PDict [(''backend_name'', PStr ''ibmqx4''), (''pending_jobs'', PInt 3)]),
      \<lparr>api_calls = [Call_backend_status ''ibmqx4''], warnings = []\<rparr>)"
proof -
  have a: "backend_status (api sample_device) (name sample_device) =
      Inr (PDict [(''backend_name'', PStr ''ibmqx4''), (''pending_jobs'', PInt 3)])"
    by (simp add: sample_device_def sample_api_def)
  show ?thesis
    using status_wraps_validation_error[OF a, of rejecting quiet]
      status_wraps_validation_error[OF a, of accepting quiet]
    by (simp add: rejecting_def accepting_def sample_device_def api_call_def quiet_def)
qed

section \<open>Precedence of the status over db_filter\<close>

text \<open>
  Claim C2. When the status given to \<^verbatim>\<open>jobs\<close> stands for a member whose predicates define
  a key \<open>k\<close>, and \<^verbatim>\<open>db_filter\<close> defines \<open>k\<close> as well, then the filter handed to
  \<^verbatim>\<open>get_status_jobs\<close> has the value of the status predicates at \<open>k\<close>; the backend's name
  is kept in the same way.
\<close>

theorem jobs_status_precedence:
  assumes "coerce_status others st = Inr (Some s)"
      and "status_filter s = Inr this_filter"
      and "map_of this_filter k = Some v"
      and "map_of F k = Some v'"
  shows "api_calls (snd (jobs others self limit skip st (Some F) w))
           = api_calls w @ [Call_get_status_jobs limit skip
               (dict_unpack2 F (dict_update [(''backend.name'', PStr (name self))] this_filter))]
       \<and> map_of (dict_unpack2 F (dict_update [(''backend.name'', PStr (name self))] this_filter)) k
           = Some v
       \<and> map_of (dict_unpack2 F (dict_update [(''backend.name'', PStr (name self))] this_filter))
             ''backend.name''
           = Some (PStr (name self))"
proof -
  let ?base = "[(''backend.name'', PStr (name self))]"
  let ?acc = "dict_update ?base this_filter"
  have keys: "distinct (map fst this_filter)" "''backend.name'' \<notin> fst ` set this_filter"
    using status_filter_keys[OF assms(2)] by simp_all
  have nonempty: "F \<noteq> []"
    using assms(4) by auto
  have f: "jobs_filter others self st (Some F) = Inr (dict_unpack2 F ?acc)"
    using assms(1,2) nonempty by (simp add: jobs_filter_def)
  have d: "distinct (map fst ?acc)"
    by (rule distinct_dict_update) simp
  have acc: "map_of ?acc = map_of ?base ++ map_of this_filter"
    by (simp add: map_of_dict_update map_of_rev_distinct keys(1))
  have final: "map_of (dict_unpack2 F ?acc) = map_of (rev F) ++ map_of ?acc"
    by (rule map_of_dict_unpack2[OF d])
  have k: "map_of (dict_unpack2 F ?acc) k = Some v"
    by (simp add: final acc assms(3))
  have "map_of this_filter ''backend.name'' = None"
    using keys(2) by (simp add: map_of_eq_None_iff)
  then have b: "map_of (dict_unpack2 F ?acc) ''backend.name'' = Some (PStr (name self))"
    by (simp add: final acc map_add_def)
  show ?thesis
    using jobs_calls_api[OF f] k b by blast
qed

theorem jobs_status_precedence_witness:
  "api_calls (snd (jobs [] sample_device 5 0 (StatusEnum DONE)
      (Some [(''shots'', PInt 1024), (''status'', PStr ''RUNNING'')]) quiet))
     = [Call_get_status_jobs 5 0
         [(''shots'', PInt 1024), (''status'', PStr ''COMPLETED''),
          (''backend.name'', PStr ''ibmqx4'')]]
   \<and> map_of [(''shots'', PInt 1024), (''status'', PStr ''COMPLETED''),
          (''backend.name'', PStr ''ibmqx4'')] ''status'' = Some (PStr ''COMPLETED'')"
proof -
  have a: "coerce_status [] (StatusEnum DONE) = Inr (Some DONE)"
    by (simp add: coerce_status_def)
  have b: "status_filter DONE = Inr [(''status'', PStr ''COMPLETED'')]"
    by (simp add: status_filter_def)
  have c: "map_of [(''status'', PStr ''COMPLETED'')] ''status'' = Some (PStr ''COMPLETED'')"
    by simp
  have d: "map_of [(''shots'', PInt 1024), (''status'', PStr ''RUNNING'')] ''status''
      = Some (PStr ''RUNNING'')"
    by simp
  show ?thesis
    using jobs_status_precedence[OF a b c d, of sample_device 5 0 quiet]
    by (simp add: quiet_def dict_unpack2_def dict_update_def sample_device_def)
qed

section \<open>The loop of jobs\<close>

text \<open>
  The loop builds a job for every record before the first one that is not a q-object,
  and collects the id of that one.
\<close>

lemma jobs_loop_takeWhile:
  "jobs_loop self infos job_list old =
     (job_list @ map (new_IBMQJob self) (takeWhile is_qobject infos),
      old @ (case dropWhile is_qobject infos of [] \<Rightarrow> [] | r # rest \<Rightarrow> [dict_get r ''id'']))"
  by (induction infos arbitrary: job_list) simp_all


lemma jobs_loop_legacy:
  assumes "\<forall>p \<in> set pre. is_qobject p" and "\<not> is_qobject r"
  shows "jobs_loop self (pre @ r # post) [] [] = (map (new_IBMQJob self) pre, [dict_get r ''id''])"
proof -
  have tw: "takeWhile is_qobject (pre @ r # post) = pre"
    using assms by (simp add: takeWhile_append2)
  have dw: "dropWhile is_qobject (pre @ r # post) = r # post"
    using assms by (simp add: dropWhile_append2)
  show ?thesis
    unfolding jobs_loop_takeWhile tw dw by simp
qed




section \<open>retrieve_job\<close>

text \<open>The three checks on a fetched record, one lemma for each way of failing.\<close>

lemma check_job_info_error:
  "map_of job_info ''error'' = Some err \<Longrightarrow>
     check_job_info py_repr self job_id job_info w =
       (Inl (IBMQBackendError (failed_to_get_job job_id (py_str py_repr err))), w)"
  by (simp add: check_job_info_def dict_contains_def dict_get_def)

lemma check_job_info_foreign:
  assumes "map_of job_info ''error'' = None"
      and "dict_getitem job_info ''backend'' = Inr backend"
      and "py_getitem backend ''name'' = Inr backend_name"
      and "backend_name \<noteq> PStr (name self)"
  shows "check_job_info py_repr self job_id job_info w =
       (Inl (IBMQBackendError
          (failed_to_get_job job_id (not_this_backend (py_str py_repr backend_name)))),
        warnings_warn (another_backend_message job_id (py_str py_repr backend_name) (name self))
          UserWarning w)"
  using assms by (simp add: check_job_info_def dict_contains_def)

lemma check_job_info_legacy:
  assumes "map_of job_info ''error'' = None"
      and "dict_getitem job_info ''backend'' = Inr backend"
      and "py_getitem backend ''name'' = Inr (PStr (name self))"
      and "\<not> is_qobject job_info"
  shows "check_job_info py_repr self job_id job_info w =
       (Inl (IBMQBackendError (failed_to_get_job job_id ''job in pre-qobj format'')),
        warnings_warn (pre_qobj_message job_id) DeprecationWarning w)"
  using assms by (simp add: check_job_info_def dict_contains_def)

lemma retrieve_job_fetched:
  "get_job (api self) job_id = Inr job_info \<Longrightarrow>
     retrieve_job py_repr self job_id w =
       check_job_info py_repr self job_id job_info (api_call (Call_get_job job_id) w)"
  by (simp add: retrieve_job_def)

text \<open>
  Claim C5. When the fetched record has no error field and the name under
  \<^verbatim>\<open>['backend']['name']\<close> is not the name of this backend, \<^verbatim>\<open>retrieve_job\<close> emits a warning
  whose text holds the job id, the name found in the record and the name of this backend,
  and fails with \<^verbatim>\<open>IBMQBackendError\<close>: both happen.
\<close>

theorem retrieve_job_foreign_backend:
  assumes "get_job (api self) job_id = Inr job_info"
      and "map_of job_info ''error'' = None"
      and "dict_getitem job_info ''backend'' = Inr backend"
      and "py_getitem backend ''name'' = Inr backend_name"
      and "backend_name \<noteq> PStr (name self)"
  shows "retrieve_job py_repr self job_id w =
       (Inl (IBMQBackendError
          (failed_to_get_job job_id (not_this_backend (py_str py_repr backend_name)))),
        warnings_warn (another_backend_message job_id (py_str py_repr backend_name) (name self))
          UserWarning (api_call (Call_get_job job_id) w))"
  by (simp add: retrieve_job_fetched[OF assms(1)] check_job_info_foreign[OF assms(2-5)])

theorem retrieve_job_foreign_backend_witness:
  \<open>retrieve_job sample_repr sample_device ''foreign'' quiet =
     (Inl (IBMQBackendError
        ''Failed to get job "foreign": job does not belong to backend "ibmqx2".''),
      \<lparr>api_calls = [Call_get_job ''foreign''],
       warnings = [(UserWarning,
         ''Job "foreign" belongs to another backend than the one queried. The query was made on backend "ibmqx2", but the job actually belongs to backend "ibmqx4".'')]\<rparr>)\<close>
proof -
  let ?info = "[(''id'', PStr ''foreign''), (''kind'', PStr ''q-object''),
             (''backend'', PDict [(''name'', PStr ''ibmqx2'')])]"
  have a: "get_job (api sample_device) ''foreign'' = Inr ?info"
    by (simp add: sample_device_def sample_api_def sample_job_def)
  have b: "map_of ?info ''error'' = None"
    by simp
  have c: "dict_getitem ?info ''backend'' = Inr (PDict [(''name'', PStr ''ibmqx2'')])"
    by (simp add: dict_getitem_def)
  have d: "py_getitem (PDict [(''name'', PStr ''ibmqx2'')]) ''name'' = Inr (PStr ''ibmqx2'')"
    by (simp add: py_getitem_def dict_getitem_def)
  have e: "PStr ''ibmqx2'' \<noteq> PStr (name sample_device)"
    by (simp add: sample_device_def)
  show ?thesis
    using retrieve_job_foreign_backend[OF a b c d e, of sample_repr quiet]
    by (simp add: failed_to_get_job_def not_this_backend_def another_backend_message_def
        py_str_def warnings_warn_def api_call_def quiet_def sample_device_def)
qed


text \<open>
  Claim C8. When the fetched record has no error field, a record without the key
  \<open>backend\<close> makes \<^verbatim>\<open>retrieve_job\<close> end in \<^verbatim>\<open>KeyError('backend')\<close>, and a record whose
  \<open>backend\<close> is a dictionary without \<open>name\<close> makes it end in \<^verbatim>\<open>KeyError('name')\<close>: the
  key error is raised as it is, not as \<^verbatim>\<open>IBMQBackendError\<close>, and nothing is warned.
\<close>

theorem retrieve_job_unguarded_backend_name:
  assumes "get_job (api self) job_id = Inr job_info"
      and "map_of job_info ''error'' = None"
  shows "(map_of job_info ''backend'' = None \<longrightarrow>
            retrieve_job py_repr self job_id w =
              (Inl (KeyError ''backend''), api_call (Call_get_job job_id) w))
       \<and> (\<forall>d. map_of job_info ''backend'' = Some (PDict d) \<and> map_of d ''name'' = None \<longrightarrow>
            retrieve_job py_repr self job_id w =
              (Inl (KeyError ''name''), api_call (Call_get_job job_id) w))"
  using assms(2)
  by (simp add: retrieve_job_fetched[OF assms(1)] check_job_info_def dict_contains_def
      dict_getitem_def py_getitem_def)

theorem retrieve_job_unguarded_backend_name_witness:
  "retrieve_job sample_repr sample_device ''no-backend'' quiet =
     (Inl (KeyError ''backend''), \<lparr>api_calls = [Call_get_job ''no-backend''], warnings = []\<rparr>)
   \<and> retrieve_job sample_repr sample_device ''no-name'' quiet =
     (Inl (KeyError ''name''), \<lparr>api_calls = [Call_get_job ''no-name''], warnings = []\<rparr>)"
proof -
  let ?a = "[(''id'', PStr ''no-backend''), (''kind'', PStr ''q-object'')]"
  let ?d = "[(''id'', PStr ''5ae875670f020500393162b3'')]"
  let ?b = "[(''id'', PStr ''no-name''), (''kind'', PStr ''q-object''), (''backend'', PDict ?d)]"
  have a: "get_job (api sample_device) ''no-backend'' = Inr ?a"
    by (simp add: sample_device_def sample_api_def sample_job_def)
  have b: "get_job (api sample_device) ''no-name'' = Inr ?b"
    by (simp add: sample_device_def sample_api_def sample_job_def)
  have a': "map_of ?a ''error'' = None" "map_of ?a ''backend'' = None"
    by simp_all
  have b': "map_of ?b ''error'' = None"
    "map_of ?b ''backend'' = Some (PDict ?d) \<and> map_of ?d ''name'' = None"
    by simp_all
  have first: "retrieve_job sample_repr sample_device ''no-backend'' quiet =
      (Inl (KeyError ''backend''), api_call (Call_get_job ''no-backend'') quiet)"
    using retrieve_job_unguarded_backend_name[OF a a'(1), of sample_repr quiet] a'(2) by blast
  have second: "retrieve_job sample_repr sample_device ''no-name'' quiet =
      (Inl (KeyError ''name''), api_call (Call_get_job ''no-name'') quiet)"
    using retrieve_job_unguarded_backend_name[OF b b'(1), of sample_repr quiet] b'(2) by blast
  show ?thesis
    unfolding first second by (simp add: api_call_def quiet_def)
qed

text \<open>
  Claim C9. The checks run in the order error field, backend name, kind. A fetched
  record with an error field makes \<^verbatim>\<open>retrieve_job\<close> fail with \<^verbatim>\<open>IBMQBackendError\<close> whose
  message holds the job id and the error value, and no warning is emitted, whatever the
  record says about its backend and its kind. Without an error field, a foreign backend
  name gives the failure about the backend, whatever the kind is.
\<close>

theorem retrieve_job_check_order:
  assumes "get_job (api self) job_id = Inr job_info"
  shows "(\<forall>err. map_of job_info ''error'' = Some err \<longrightarrow>
            retrieve_job py_repr self job_id w =
              (Inl (IBMQBackendError (failed_to_get_job job_id (py_str py_repr err))),
               api_call (Call_get_job job_id) w)
            \<and> warnings (snd (retrieve_job py_repr self job_id w)) = warnings w)
       \<and> (\<forall>backend backend_name.
            map_of job_info ''error'' = None \<and> dict_getitem job_info ''backend'' = Inr backend
              \<and> py_getitem backend ''name'' = Inr backend_name
              \<and> backend_name \<noteq> PStr (name self) \<longrightarrow>
            fst (retrieve_job py_repr self job_id w) =
              Inl (IBMQBackendError
                (failed_to_get_job job_id (not_this_backend (py_str py_repr backend_name)))))"
proof (intro conjI allI impI)
  fix err
  assume e: "map_of job_info ''error'' = Some err"
  show "retrieve_job py_repr self job_id w =
      (Inl (IBMQBackendError (failed_to_get_job job_id (py_str py_repr err))),
       api_call (Call_get_job job_id) w)"
    by (simp add: retrieve_job_fetched[OF assms] check_job_info_error[OF e])
  then show "warnings (snd (retrieve_job py_repr self job_id w)) = warnings w"
    by (simp add: api_call_def)
next
  fix backend backend_name
  assume "map_of job_info ''error'' = None \<and> dict_getitem job_info ''backend'' = Inr backend
      \<and> py_getitem backend ''name'' = Inr backend_name \<and> backend_name \<noteq> PStr (name self)"
  then show "fst (retrieve_job py_repr self job_id w) =
      Inl (IBMQBackendError
        (failed_to_get_job job_id (not_this_backend (py_str py_repr backend_name))))"
    by (simp add: retrieve_job_fetched[OF assms] check_job_info_foreign)
qed

theorem retrieve_job_check_order_witness:
  \<open>retrieve_job sample_repr sample_device ''with-error'' quiet =
     (Inl (IBMQBackendError ''Failed to get job "with-error": not found''),
      \<lparr>api_calls = [Call_get_job ''with-error''], warnings = []\<rparr>)
   \<and> fst (retrieve_job sample_repr sample_device ''foreign'' quiet) =
     Inl (IBMQBackendError
        ''Failed to get job "foreign": job does not belong to backend "ibmqx2".'')\<close>
proof -
  let ?e = "[(''error'', PStr ''not found''),
             (''backend'', PDict [(''name'', PStr ''ibmqx2'')]),
             (''kind'', PStr ''circuit'')]"
  let ?f = "[(''id'', PStr ''foreign''), (''kind'', PStr ''q-object''),
             (''backend'', PDict [(''name'', PStr ''ibmqx2'')])]"
  have a: "get_job (api sample_device) ''with-error'' = Inr ?e"
    by (simp add: sample_device_def sample_api_def sample_job_def)
  have b: "get_job (api sample_device) ''foreign'' = Inr ?f"
    by (simp add: sample_device_def sample_api_def sample_job_def)
  have a': "map_of ?e ''error'' = Some (PStr ''not found'')"
    by simp
  have b': "map_of ?f ''error'' = None
      \<and> dict_getitem ?f ''backend'' = Inr (PDict [(''name'', PStr ''ibmqx2'')])
      \<and> py_getitem (PDict [(''name'', PStr ''ibmqx2'')]) ''name'' = Inr (PStr ''ibmqx2'')
      \<and> PStr ''ibmqx2'' \<noteq> PStr (name sample_device)"
    by (simp add: dict_getitem_def py_getitem_def sample_device_def)
  have first: "retrieve_job sample_repr sample_device ''with-error'' quiet =
      (Inl (IBMQBackendError
         (failed_to_get_job ''with-error'' (py_str sample_repr (PStr ''not found'')))),
       api_call (Call_get_job ''with-error'') quiet)"
    using retrieve_job_check_order[OF a, of sample_repr quiet] a' by blast
  have second: "fst (retrieve_job sample_repr sample_device ''foreign'' quiet) =
      Inl (IBMQBackendError
        (failed_to_get_job ''foreign'' (not_this_backend (py_str sample_repr (PStr ''ibmqx2'')))))"
    using retrieve_job_check_order[OF b, of sample_repr quiet] b' by blast
  show ?thesis
    unfolding first second
    by (simp add: failed_to_get_job_def not_this_backend_def py_str_def api_call_def quiet_def)
qed

section \<open>Records without a kind\<close>

text \<open>
  A record without the key \<open>kind\<close> and the same record with \<open>kind\<close> set to something
  else than \<open>q-object\<close> are told apart by nothing that the module reads.
\<close>

lemma map_of_append_kind:
  "k \<noteq> ''kind'' \<Longrightarrow> map_of (r @ [(''kind'', v)]) k = map_of r k"
  by (simp add: map_add_def split: option.splits)

lemma dict_get_append_kind:
  "k \<noteq> ''kind'' \<Longrightarrow> dict_get (r @ [(''kind'', v)]) k = dict_get r k"
  by (simp add: dict_get_def map_of_append_kind del: map_of_append)

lemma missing_kind_not_qobject: "map_of r ''kind'' = None \<Longrightarrow> \<not> is_qobject r"
  by (simp add: is_qobject_def dict_get_def)

lemma other_kind_not_qobject:
  "map_of r ''kind'' = None \<Longrightarrow> v \<noteq> PStr ''q-object'' \<Longrightarrow> \<not> is_qobject (r @ [(''kind'', v)])"
  by (simp add: is_qobject_def dict_get_def map_add_def)

lemma jobs_loop_same_kind:
  assumes "map_of r ''kind'' = None" and "v \<noteq> PStr ''q-object''"
  shows "jobs_loop self (pre @ (r @ [(''kind'', v)]) # post) job_list old =
         jobs_loop self (pre @ r # post) job_list old"
  using assms
proof (induction pre arbitrary: job_list)
  case Nil
  then show ?case
    by (simp add: missing_kind_not_qobject other_kind_not_qobject dict_get_append_kind)
next
  case (Cons p pre)
  then show ?case by simp
qed

lemma check_job_info_same_kind:
  assumes "map_of r ''kind'' = None" and "v \<noteq> PStr ''q-object''"
  shows "check_job_info py_repr self job_id (r @ [(''kind'', v)]) w =
         check_job_info py_repr self job_id r w"
  using missing_kind_not_qobject[OF assms(1)] other_kind_not_qobject[OF assms]
  by (simp add: check_job_info_def dict_contains_def dict_getitem_def map_of_append_kind
      dict_get_append_kind del: map_of_append split: option.splits sum.splits)

text \<open>
  Claim C10. Let the record \<open>r\<close> have no \<open>kind\<close>. The loop of \<^verbatim>\<open>jobs\<close> does the same on a
  list with \<open>r\<close> as on the list where \<open>r\<close> has received a \<open>kind\<close> that is not \<open>q-object\<close>,
  and behind q-objects it stops at \<open>r\<close> and collects its id. The checks of \<^verbatim>\<open>retrieve_job\<close>
  give the same on \<open>r\<close> as on \<open>r\<close> with such a \<open>kind\<close>, and when \<open>r\<close> is fetched, has no
  error field and names this backend, \<^verbatim>\<open>retrieve_job\<close> emits the \<^verbatim>\<open>DeprecationWarning\<close>
  and fails with \<^verbatim>\<open>IBMQBackendError\<close>, the message ending in "job in pre-qobj format".
\<close>

theorem missing_kind_is_legacy:
  assumes "map_of r ''kind'' = None"
  shows "(\<forall>v pre post job_list old. v \<noteq> PStr ''q-object'' \<longrightarrow>
            jobs_loop self (pre @ r # post) job_list old =
              jobs_loop self (pre @ (r @ [(''kind'', v)]) # post) job_list old)
       \<and> (\<forall>pre post. (\<forall>p \<in> set pre. is_qobject p) \<longrightarrow>
            jobs_loop self (pre @ r # post) [] [] =
              (map (new_IBMQJob self) pre, [dict_get r ''id'']))
       \<and> (\<forall>v. v \<noteq> PStr ''q-object'' \<longrightarrow>
            check_job_info py_repr self job_id r w =
              check_job_info py_repr self job_id (r @ [(''kind'', v)]) w)
       \<and> (\<forall>backend.
            get_job (api self) job_id = Inr r \<and> map_of r ''error'' = None
              \<and> dict_getitem r ''backend'' = Inr backend
              \<and> py_getitem backend ''name'' = Inr (PStr (name self)) \<longrightarrow>
            retrieve_job py_repr self job_id w =
              (Inl (IBMQBackendError (failed_to_get_job job_id ''job in pre-qobj format'')),
               warnings_warn (pre_qobj_message job_id) DeprecationWarning
                 (api_call (Call_get_job job_id) w)))"
proof (intro conjI allI impI)
  fix v pre post job_list old
  assume "v \<noteq> PStr ''q-object''"
  then show "jobs_loop self (pre @ r # post) job_list old =
      jobs_loop self (pre @ (r @ [(''kind'', v)]) # post) job_list old"
    by (simp add: jobs_loop_same_kind[OF assms])
next
  fix pre post
  assume "\<forall>p \<in> set pre. is_qobject p"
  then show "jobs_loop self (pre @ r # post) [] [] =
      (map (new_IBMQJob self) pre, [dict_get r ''id''])"
    by (rule jobs_loop_legacy[OF _ missing_kind_not_qobject[OF assms]])
next
  fix v :: pyval
  assume "v \<noteq> PStr ''q-object''"
  then show "check_job_info py_repr self job_id r w =
      check_job_info py_repr self job_id (r @ [(''kind'', v)]) w"
    by (simp add: check_job_info_same_kind[OF assms])
next
  fix backend
  assume h: "get_job (api self) job_id = Inr r \<and> map_of r ''error'' = None
      \<and> dict_getitem r ''backend'' = Inr backend
      \<and> py_getitem backend ''name'' = Inr (PStr (name self))"
  then have fetched: "get_job (api self) job_id = Inr r"
    and noerr: "map_of r ''error'' = None"
    and bk: "dict_getitem r ''backend'' = Inr backend"
    and nm: "py_getitem backend ''name'' = Inr (PStr (name self))"
    by simp_all
  show "retrieve_job py_repr self job_id w =
      (Inl (IBMQBackendError (failed_to_get_job job_id ''job in pre-qobj format'')),
       warnings_warn (pre_qobj_message job_id) DeprecationWarning
         (api_call (Call_get_job job_id) w))"
    by (simp add: retrieve_job_fetched[OF fetched]
        check_job_info_legacy[OF noerr bk nm missing_kind_not_qobject[OF assms]])
qed


theorem missing_kind_is_legacy_witness:
  \<open>jobs_loop sample_device sample_records [] [] =
     ([\<lparr>job_backend = sample_device, job_ident = PStr ''j1'',
        job_creation_date = PStr ''2019-04-01'', job_api_status = PStr ''COMPLETED''\<rparr>],
      [PStr ''j2''])
   \<and> jobs_loop sample_device sample_records [] [] =
       jobs_loop sample_device
         [sample_records ! 0, sample_records ! 1 @ [(''kind'', PStr ''circuit'')],
          sample_records ! 2] [] []
   \<and> retrieve_job sample_repr sample_device ''no-kind'' quiet =
     (Inl (IBMQBackendError ''Failed to get job "no-kind": job in pre-qobj format''),
      \<lparr>api_calls = [Call_get_job ''no-kind''],
       warnings = [(DeprecationWarning,
         ''The result of job no-kind is in a no longer supported format. Please send the job using Qiskit 0.8+.'')]\<rparr>)
   \<and> check_job_info sample_repr sample_device ''no-kind''
       [(''id'', PStr ''no-kind''), (''backend'', PDict [(''name'', PStr ''ibmqx4'')])] quiet =
     check_job_info sample_repr sample_device ''no-kind''
       [(''id'', PStr ''no-kind''), (''backend'', PDict [(''name'', PStr ''ibmqx4'')]),
        (''kind'', PStr ''circuit'')] quiet\<close>
proof -
  let ?j1 = "[(''id'', PStr ''j1''), (''kind'', PStr ''q-object''),
       (''creationDate'', PStr ''2019-04-01''), (''status'', PStr ''COMPLETED'')]"
  let ?j2 = "[(''id'', PStr ''j2''), (''creationDate'', PStr ''2018-11-30''),
       (''status'', PStr ''COMPLETED'')]"
  let ?j3 = "[(''id'', PStr ''j3''), (''kind'', PStr ''q-object''),
       (''creationDate'', PStr ''2019-04-02''), (''status'', PStr ''RUNNING'')]"
  let ?n = "[(''id'', PStr ''no-kind''), (''backend'', PDict [(''name'', PStr ''ibmqx4'')])]"
  have k2: "map_of ?j2 ''kind'' = None" and kn: "map_of ?n ''kind'' = None"
    by simp_all
  have v: "PStr ''circuit'' \<noteq> PStr ''q-object''"
    by simp
  have pre: "\<forall>p \<in> set [?j1]. is_qobject p"
    by (simp add: is_qobject_def dict_get_def)
  have fetched: "get_job (api sample_device) ''no-kind'' = Inr ?n \<and> map_of ?n ''error'' = None
      \<and> dict_getitem ?n ''backend'' = Inr (PDict [(''name'', PStr ''ibmqx4'')])
      \<and> py_getitem (PDict [(''name'', PStr ''ibmqx4'')]) ''name'' = Inr (PStr (name sample_device))"
    by (simp add: sample_device_def sample_api_def sample_job_def dict_getitem_def py_getitem_def)
  note loop = missing_kind_is_legacy[OF k2, of sample_device sample_repr "''no-kind''" quiet]
  note single = missing_kind_is_legacy[OF kn, of sample_device sample_repr "''no-kind''" quiet]
  have a: "jobs_loop sample_device ([?j1] @ ?j2 # [?j3]) [] [] =
      (map (new_IBMQJob sample_device) [?j1], [dict_get ?j2 ''id''])"
    by (rule loop[THEN conjunct2, THEN conjunct1, THEN spec, THEN spec, THEN mp, OF pre])
  have b: "jobs_loop sample_device ([?j1] @ ?j2 # [?j3]) [] [] =
      jobs_loop sample_device ([?j1] @ (?j2 @ [(''kind'', PStr ''circuit'')]) # [?j3]) [] []"
    by (rule loop[THEN conjunct1, rule_format, OF v])
  have c: "retrieve_job sample_repr sample_device ''no-kind'' quiet =
      (Inl (IBMQBackendError (failed_to_get_job ''no-kind'' ''job in pre-qobj format'')),
       warnings_warn (pre_qobj_message ''no-kind'') DeprecationWarning
         (api_call (Call_get_job ''no-kind'') quiet))"
    by (rule single[THEN conjunct2, THEN conjunct2, THEN conjunct2, rule_format, OF fetched])
  have d: "check_job_info sample_repr sample_device ''no-kind'' ?n quiet =
      check_job_info sample_repr sample_device ''no-kind'' (?n @ [(''kind'', PStr ''circuit'')]) quiet"
    by (rule single[THEN conjunct2, THEN conjunct2, THEN conjunct1, rule_format, OF v])
  have recs: "sample_records = [?j1] @ ?j2 # [?j3]"
    by (simp add: sample_records_def)
  have a': "jobs_loop sample_device sample_records [] [] =
     ([\<lparr>job_backend = sample_device, job_ident = PStr ''j1'',
        job_creation_date = PStr ''2019-04-01'', job_api_status = PStr ''COMPLETED''\<rparr>],
      [PStr ''j2''])"
    unfolding recs a by (simp add: new_IBMQJob_def dict_get_def)
  have b': "jobs_loop sample_device sample_records [] [] =
       jobs_loop sample_device
         [sample_records ! 0, sample_records ! 1 @ [(''kind'', PStr ''circuit'')],
          sample_records ! 2] [] []"
    using b by (simp add: sample_records_def)
  have c': \<open>retrieve_job sample_repr sample_device ''no-kind'' quiet =
     (Inl (IBMQBackendError ''Failed to get job "no-kind": job in pre-qobj format''),
      \<lparr>api_calls = [Call_get_job ''no-kind''],
       warnings = [(DeprecationWarning,
         ''The result of job no-kind is in a no longer supported format. Please send the job using Qiskit 0.8+.'')]\<rparr>)\<close>
    unfolding c
    by (simp add: failed_to_get_job_def pre_qobj_message_def warnings_warn_def api_call_def
        quiet_def)
  from d have d': "check_job_info sample_repr sample_device ''no-kind''
       [(''id'', PStr ''no-kind''), (''backend'', PDict [(''name'', PStr ''ibmqx4'')])] quiet =
     check_job_info sample_repr sample_device ''no-kind''
       [(''id'', PStr ''no-kind''), (''backend'', PDict [(''name'', PStr ''ibmqx4'')]),
        (''kind'', PStr ''circuit'')] quiet"
    by simp
  show ?thesis
    by (rule conjI[OF a' conjI[OF b' conjI[OF c' d']]])
qed

end
